theory Spec2Isabelle
  imports Complex_Main
begin

section \<open>Data model\<close>

text \<open>
  The storefront keeps three collections of documents: products, users (each with an
  embedded cart) and orders. Document identifiers are handled by the controllers as
  strings (\<^verbatim>\<open>req.params.orderId\<close>, \<^verbatim>\<open>_id.toString()\<close>), so an identifier is a
  \<^typ>\<open>string\<close> here. Prices are JavaScript numbers, that is finite doubles, and every finite double is a
  rational: a price is a \<^typ>\<open>rat\<close>. Quantities and page numbers are integers.
\<close>

type_synonym oid = string

record product =
  prod_id :: oid
  title :: string
  price :: rat
  description :: string
  imageUrl :: string
  userId :: oid

text \<open>An entry of \<^verbatim>\<open>user.cart.items\<close>: a product reference and a quantity.\<close>

record cart_item =
  productId :: oid
  quantity :: int

record user_doc =
  user_id :: oid
  email :: string
  cart_items :: "cart_item list"

text \<open>
  A line of an order, as the controllers build it:
  \<^verbatim>\<open>{ quantity: i.quantity, productData: { ...i.productId._doc } }\<close>.
\<close>

record order_line =
  line_quantity :: int
  productData :: product

record order_doc =
  order_id :: oid
  order_email :: string
  order_userId :: oid
  order_products :: "order_line list"

text \<open>One line item of the request sent to the payment service by \<^verbatim>\<open>getCheckout\<close>.\<close>

record line_item =
  li_name :: string
  li_description :: string
  li_amount :: rat
  li_currency :: string
  li_quantity :: int

text \<open>
  The invoice document written by \<^verbatim>\<open>getInvoice\<close>: the heading, one line per product
  (title, quantity, unit price) and the total.
\<close>

record invoice =
  heading :: string
  product_lines :: "(string \<times> int \<times> rat) list"
  total_price :: rat

text \<open>
  The persistent state one request sees: the document of the logged-in user
  (\<^verbatim>\<open>req.user\<close>), the product collection in its natural order, the order collection,
  the files under \<^verbatim>\<open>data/invoices\<close>, and the line-item lists sent to the payment
  service so far.
\<close>

record world =
  session_user :: user_doc
  catalog :: "product list"
  ledger :: "order_doc list"
  invoice_files :: "(string \<times> invoice) list"
  stripe_calls :: "line_item list list"

text \<open>
  What the surroundings decide for one request: which storage or payment call rejects,
  the identifier a new order document gets, and the session id the payment service
  answers with.
\<close>

record env =
  read_fails :: bool
  order_save_fails :: bool
  cart_save_fails :: bool
  product_save_fails :: bool
  payment_fails :: bool
  new_order_id :: oid
  session_id :: string

section \<open>Errors and responses\<close>

text \<open>
  What a \<^verbatim>\<open>try\<close> block can catch: a \<^verbatim>\<open>TypeError\<close> from reading a property of
  \<^verbatim>\<open>null\<close>, a rejected storage call, a rejected payment-service call.
\<close>

datatype thrown = TypeError | StoreFailure | PaymentFailure

text \<open>
  What a handler passes to \<^verbatim>\<open>next\<close>: \<open>ServerFault e\<close> is \<^verbatim>\<open>new Error(err)\<close> with
  \<^verbatim>\<open>httpStatusCode = 500\<close>, \<open>Message m\<close> is \<^verbatim>\<open>new Error(m)\<close>, and \<open>Passed e\<close> is the
  caught value handed on as it is (\<^verbatim>\<open>next(err)\<close>).
\<close>

datatype error = ServerFault thrown | Message string | Passed thrown

fun httpStatusCode :: "error \<Rightarrow> int option" where
  "httpStatusCode (ServerFault e) = Some 500"
| "httpStatusCode (Message m) = None"
| "httpStatusCode (Passed e) = None"

record list_view =
  prods :: "product list"
  pageTitle :: string
  path :: string
  currentPage :: int
  hasNextPage :: bool
  hasPrevPage :: bool
  nextPage :: int
  prevPage :: int
  lastPage :: int

record checkout_view =
  checkout_products :: "(int \<times> product) list"
  totalSum :: rat
  sessionId :: string

datatype response =
    Redirect string
  | RenderList string list_view
  | RenderDetail product
  | RenderCheckout checkout_view
  | Pdf string invoice
  | Next error
  | NoResponse

section \<open>Product listing\<close>

text \<open>
  \<^verbatim>\<open>const page = +req.query.page || 1\<close>. The query parameter is absent
  (\<^verbatim>\<open>undefined\<close>) or a string. Unary plus turns \<^verbatim>\<open>undefined\<close> into \<^verbatim>\<open>NaN\<close> and a
  string into the number the language reads it as; that reading of strings is the
  language's own and is a parameter \<open>toNumber\<close> of the handlers. \<^verbatim>\<open>NaN\<close> and \<^verbatim>\<open>0\<close>
  are the falsy numbers, for which \<^verbatim>\<open>||\<close> yields its right operand. Numbers are
  \<^verbatim>\<open>NaN\<close> or integers here: a fractional or infinite page is outside the model.
\<close>

datatype jsnum = NaN | Num int

datatype query_value = Absent | Text string

fun unary_plus :: "(string \<Rightarrow> jsnum) \<Rightarrow> query_value \<Rightarrow> jsnum" where
  "unary_plus toNumber Absent = NaN"
| "unary_plus toNumber (Text s) = toNumber s"

fun or_one :: "jsnum \<Rightarrow> int" where
  "or_one NaN = 1"
| "or_one (Num k) = (if k = 0 then 1 else k)"

definition ITEMS_PER_PAGE :: int where
  "ITEMS_PER_PAGE = 3"

text \<open>
  \<^verbatim>\<open>Product.find().skip(n).limit(k)\<close>: the documents in natural order without the
  first \<open>n\<close>, at most \<open>k\<close> of them. The database rejects a negative skip.
\<close>

definition find_skip_limit :: "product list \<Rightarrow> int \<Rightarrow> int \<Rightarrow> thrown + product list" where
  "find_skip_limit ps n k =
     (if n < 0 then Inl StoreFailure else Inr (take (nat k) (drop (nat n) ps)))"

definition paged_view :: "string \<Rightarrow> string \<Rightarrow> product list \<Rightarrow> int \<Rightarrow> int \<Rightarrow> list_view" where
  "paged_view ttl pth products page totalItems =
     \<lparr>prods = products, pageTitle = ttl, path = pth, currentPage = page,
      hasNextPage = (ITEMS_PER_PAGE * page < totalItems),
      hasPrevPage = (page > 1),
      nextPage = page + 1,
      prevPage = page - 1,
      lastPage = \<lceil>(of_int totalItems :: rat) / of_int ITEMS_PER_PAGE\<rceil>\<rparr>"

definition getProducts ::
  "(string \<Rightarrow> jsnum) \<Rightarrow> env \<Rightarrow> world \<Rightarrow> query_value \<Rightarrow> response \<times> world" where
  "getProducts toNumber e w q =
     (let page = or_one (unary_plus toNumber q) in
      if read_fails e then (Next (ServerFault StoreFailure), w)
      else
        let totalItems = int (length (catalog w)) in
        case find_skip_limit (catalog w) ((page - 1) * ITEMS_PER_PAGE) ITEMS_PER_PAGE of
          Inl err \<Rightarrow> (Next (ServerFault err), w)
        | Inr products \<Rightarrow>
            (RenderList ''shop/product-list''
               (paged_view ''All Products'' ''/products'' products page totalItems), w))"

definition getIndex ::
  "(string \<Rightarrow> jsnum) \<Rightarrow> env \<Rightarrow> world \<Rightarrow> query_value \<Rightarrow> response \<times> world" where
  "getIndex toNumber e w q =
     (let page = or_one (unary_plus toNumber q) in
      if read_fails e then (Next (ServerFault StoreFailure), w)
      else
        let totalItems = int (length (catalog w)) in
        case find_skip_limit (catalog w) ((page - 1) * ITEMS_PER_PAGE) ITEMS_PER_PAGE of
          Inl err \<Rightarrow> (Next (ServerFault err), w)
        | Inr products \<Rightarrow>
            (RenderList ''shop/index''
               (paged_view ''Shop'' ''/'' products page totalItems), w))"

section \<open>Catalog lookup\<close>

text \<open>
  \<^verbatim>\<open>Product.findById(id)\<close>: the document with that identifier, or \<^verbatim>\<open>null\<close>
  (\<open>None\<close>) when there is none.
\<close>

definition Product_findById :: "product list \<Rightarrow> oid \<Rightarrow> product option" where
  "Product_findById ps i = find (\<lambda>p. prod_id p = i) ps"

text \<open>
  \<^verbatim>\<open>getProduct\<close> renders the product with \<^verbatim>\<open>pageTitle: product.title\<close>. The
  arguments of \<^verbatim>\<open>res.render\<close> are evaluated inside the \<^verbatim>\<open>try\<close> block, so reading
  \<^verbatim>\<open>title\<close> of \<^verbatim>\<open>null\<close> throws before anything is rendered, and the \<^verbatim>\<open>catch\<close> block
  wraps whatever was thrown into an error with status 500.
\<close>

definition getProduct :: "env \<Rightarrow> world \<Rightarrow> oid \<Rightarrow> response \<times> world" where
  "getProduct e w prodId =
     (if read_fails e then (Next (ServerFault StoreFailure), w)
      else case Product_findById (catalog w) prodId of
        None \<Rightarrow> (Next (ServerFault TypeError), w)
      | Some product \<Rightarrow> (RenderDetail product, w))"

section \<open>Editing a product\<close>

record product_form =
  form_title :: string
  form_imageUrl :: string
  form_price :: rat
  form_description :: string
  form_productId :: oid

text \<open>
  \<^verbatim>\<open>postEditProduct\<close> loads the product, assigns the four form fields and saves it.
  Its \<^verbatim>\<open>catch\<close> block only logs, so a failure (also the \<^verbatim>\<open>TypeError\<close> of assigning
  to \<^verbatim>\<open>null\<close>) sends no response. Saving replaces the stored document of the same
  identifier.
\<close>

definition Product_save :: "product \<Rightarrow> product list \<Rightarrow> product list" where
  "Product_save p ps = map (\<lambda>x. if prod_id x = prod_id p then p else x) ps"

definition postEditProduct :: "env \<Rightarrow> world \<Rightarrow> product_form \<Rightarrow> response \<times> world" where
  "postEditProduct e w form =
     (if read_fails e then (NoResponse, w)
      else case Product_findById (catalog w) (form_productId form) of
        None \<Rightarrow> (NoResponse, w)
      | Some product \<Rightarrow>
          let product' = product\<lparr>title := form_title form, imageUrl := form_imageUrl form,
                                 price := form_price form,
                                 description := form_description form\<rparr> in
          if product_save_fails e then (NoResponse, w)
          else (Redirect ''/admin/products'',
                w\<lparr>catalog := Product_save product' (catalog w)\<rparr>))"

text \<open>A run of edit requests, each with its own surroundings.\<close>

fun edits :: "(env \<times> product_form) list \<Rightarrow> world \<Rightarrow> world" where
  "edits [] w = w"
| "edits ((e, form) # rest) w = edits rest (snd (postEditProduct e w form))"

section \<open>Cart\<close>

text \<open>
  Modelled from the spec: the user model's method \<^verbatim>\<open>addToCart\<close> is not among the
  source files. The specification of the cart says: if the product is already present,
  its quantity is increased by one, else an entry with quantity 1 is appended.
\<close>

fun add_item :: "oid \<Rightarrow> cart_item list \<Rightarrow> cart_item list" where
  "add_item pid [] = [\<lparr>productId = pid, quantity = 1\<rparr>]"
| "add_item pid (i # items) =
     (if productId i = pid then i\<lparr>quantity := quantity i + 1\<rparr> # items
      else i # add_item pid items)"

definition addToCart :: "product \<Rightarrow> user_doc \<Rightarrow> user_doc" where
  "addToCart product u = u\<lparr>cart_items := add_item (prod_id product) (cart_items u)\<rparr>"

text \<open>
  Modelled from the spec: the user model's method \<^verbatim>\<open>clearCart\<close> is not among the
  source files. The specification says it empties the item collection.
\<close>

definition clearCart :: "user_doc \<Rightarrow> user_doc" where
  "clearCart u = u\<lparr>cart_items := []\<rparr>"

text \<open>
  \<^verbatim>\<open>postCart\<close> of the document-store controller: look the product up and hand it to
  \<^verbatim>\<open>req.user.addToCart\<close>, which saves the user. The specification does not say what
  \<^verbatim>\<open>addToCart\<close> does with \<^verbatim>\<open>null\<close>; reading the identifier of \<^verbatim>\<open>null\<close> throws.
\<close>

definition postCart :: "env \<Rightarrow> world \<Rightarrow> oid \<Rightarrow> response \<times> world" where
  "postCart e w prodId =
     (if read_fails e then (Next (ServerFault StoreFailure), w)
      else case Product_findById (catalog w) prodId of
        None \<Rightarrow> (Next (ServerFault TypeError), w)
      | Some product \<Rightarrow>
          if cart_save_fails e then (Next (ServerFault StoreFailure), w)
          else (Redirect ''/cart'', w\<lparr>session_user := addToCart product (session_user w)\<rparr>))"

text \<open>
  The relational controller keeps the cart as rows of a join table between the user's
  cart and the products. \<^verbatim>\<open>req.user.getCart()\<close> yields \<^verbatim>\<open>null\<close> when the user has no
  cart; \<^verbatim>\<open>cart.getProducts({ where: { id } })\<close> yields the cart's rows for that
  product; \<^verbatim>\<open>cart.addProduct(product, { through: { quantity } })\<close> sets the quantity
  of the product's row, adding the row when there is none, and does nothing for
  \<^verbatim>\<open>null\<close>. The \<^verbatim>\<open>catch\<close> block only logs.
\<close>

record sq_world =
  sq_products :: "product list"
  sq_cart :: "cart_item list option"

definition cart_getProducts :: "cart_item list \<Rightarrow> oid \<Rightarrow> cart_item list" where
  "cart_getProducts items prodId = filter (\<lambda>i. productId i = prodId) items"

definition cart_addProduct :: "cart_item list \<Rightarrow> oid \<Rightarrow> int \<Rightarrow> cart_item list" where
  "cart_addProduct items pid newQty =
     (if list_ex (\<lambda>i. productId i = pid) items
      then map (\<lambda>i. if productId i = pid then i\<lparr>quantity := newQty\<rparr> else i) items
      else items @ [\<lparr>productId = pid, quantity = newQty\<rparr>])"

definition postCart_sequelize :: "env \<Rightarrow> sq_world \<Rightarrow> oid \<Rightarrow> response \<times> sq_world" where
  "postCart_sequelize e w prodId =
     (if read_fails e then (NoResponse, w)
      else case sq_cart w of
        None \<Rightarrow> (NoResponse, w)
      | Some cart \<Rightarrow>
          (case cart_getProducts cart prodId of
             product # _ \<Rightarrow>
               if cart_save_fails e then (NoResponse, w)
               else (Redirect ''/cart'',
                     w\<lparr>sq_cart := Some (cart_addProduct cart (productId product)
                                          (quantity product + 1))\<rparr>)
           | [] \<Rightarrow>
               (case Product_findById (sq_products w) prodId of
                  None \<Rightarrow> (Redirect ''/cart'', w)
                | Some product \<Rightarrow>
                    if cart_save_fails e then (NoResponse, w)
                    else (Redirect ''/cart'',
                          w\<lparr>sq_cart := Some (cart_addProduct cart (prod_id product) 1)\<rparr>))))"

section \<open>Orders\<close>

text \<open>
  \<^verbatim>\<open>req.user.populate('cart.items.productId')\<close> replaces each product reference of
  the cart by the product document the catalog holds at that moment, or by \<^verbatim>\<open>null\<close>
  when the product is gone.
\<close>

definition populate :: "product list \<Rightarrow> cart_item list \<Rightarrow> (int \<times> product option) list" where
  "populate ps items = map (\<lambda>i. (quantity i, Product_findById ps (productId i))) items"

text \<open>
  The quantities of the cart's entries, each with the price the catalog has at the moment
  for the product it refers to.
\<close>

definition priced_cart :: "world \<Rightarrow> (int \<times> rat option) list" where
  "priced_cart w =
     map (\<lambda>qp. (fst qp, map_option price (snd qp)))
       (populate (catalog w) (cart_items (session_user w)))"

text \<open>
  \<^verbatim>\<open>user.cart.items.map(i => ({ quantity: i.quantity, productData: { ...i.productId._doc } }))\<close>:
  reading \<^verbatim>\<open>_doc\<close> of \<^verbatim>\<open>null\<close> throws.
\<close>

fun order_lines :: "(int \<times> product option) list \<Rightarrow> thrown + order_line list" where
  "order_lines [] = Inr []"
| "order_lines ((q, None) # rest) = Inl TypeError"
| "order_lines ((q, Some p) # rest) =
     (case order_lines rest of
        Inl err \<Rightarrow> Inl err
      | Inr ls \<Rightarrow> Inr (\<lparr>line_quantity = q, productData = p\<rparr> # ls))"

definition new_Order :: "env \<Rightarrow> user_doc \<Rightarrow> order_line list \<Rightarrow> order_doc" where
  "new_Order e u products =
     \<lparr>order_id = new_order_id e, order_email = email u, order_userId = user_id u,
      order_products = products\<rparr>"

text \<open>
  Modelled from the spec: the order model is not among the source files. The
  specification of the order ledger says that saving an order appends the record.
\<close>

definition Order_save :: "order_doc \<Rightarrow> order_doc list \<Rightarrow> order_doc list" where
  "Order_save ord os = os @ [ord]"

definition postOrder :: "env \<Rightarrow> world \<Rightarrow> response \<times> world" where
  "postOrder e w =
     (if read_fails e then (Next (ServerFault StoreFailure), w)
      else case order_lines (populate (catalog w) (cart_items (session_user w))) of
        Inl err \<Rightarrow> (Next (ServerFault err), w)
      | Inr products \<Rightarrow>
          let ord = new_Order e (session_user w) products in
          if order_save_fails e then (Next (ServerFault StoreFailure), w)
          else
            let w1 = w\<lparr>ledger := Order_save ord (ledger w)\<rparr> in
            if cart_save_fails e then (Next (ServerFault StoreFailure), w1)
            else (Redirect ''/orders'', w1\<lparr>session_user := clearCart (session_user w1)\<rparr>))"

definition getCheckoutSuccess :: "env \<Rightarrow> world \<Rightarrow> response \<times> world" where
  "getCheckoutSuccess e w =
     (if read_fails e then (Next (ServerFault StoreFailure), w)
      else case order_lines (populate (catalog w) (cart_items (session_user w))) of
        Inl err \<Rightarrow> (Next (ServerFault err), w)
      | Inr products \<Rightarrow>
          let ord = new_Order e (session_user w) products in
          if order_save_fails e then (Next (ServerFault StoreFailure), w)
          else
            let w1 = w\<lparr>ledger := Order_save ord (ledger w)\<rparr> in
            if cart_save_fails e then (Next (ServerFault StoreFailure), w1)
            else (Redirect ''/orders'', w1\<lparr>session_user := clearCart (session_user w1)\<rparr>))"

section \<open>Checkout session\<close>

text \<open>
  The sum and the product of two JavaScript numbers are rounded to a double. The
  handlers that compute take the two operations of the language as a parameter, so that
  nothing proved of them depends on the arithmetic being exact.
\<close>

record arith =
  js_add :: "rat \<Rightarrow> rat \<Rightarrow> rat"
  js_mul :: "rat \<Rightarrow> rat \<Rightarrow> rat"

text \<open>
  The loop of \<^verbatim>\<open>getCheckout\<close>:
  \<^verbatim>\<open>products.forEach(p => { totalSum += p.quantity * p.productId.price; })\<close>.
\<close>

fun total_sum :: "arith \<Rightarrow> (int \<times> product option) list \<Rightarrow> rat \<Rightarrow> thrown + rat" where
  "total_sum a [] t = Inr t"
| "total_sum a ((q, None) # rest) t = Inl TypeError"
| "total_sum a ((q, Some p) # rest) t =
     total_sum a rest (js_add a t (js_mul a (of_int q) (price p)))"

text \<open>
  The line items of the payment request: \<^verbatim>\<open>amount: p.productId.price * 100\<close>.
\<close>

fun stripe_line_items :: "arith \<Rightarrow> (int \<times> product option) list \<Rightarrow> thrown + line_item list" where
  "stripe_line_items a [] = Inr []"
| "stripe_line_items a ((q, None) # rest) = Inl TypeError"
| "stripe_line_items a ((q, Some p) # rest) =
     (case stripe_line_items a rest of
        Inl err \<Rightarrow> Inl err
      | Inr ls \<Rightarrow>
          Inr (\<lparr>li_name = title p, li_description = description p,
                li_amount = js_mul a (price p) 100, li_currency = ''usd'',
                li_quantity = q\<rparr> # ls))"

fun populated_products :: "(int \<times> product option) list \<Rightarrow> (int \<times> product) list" where
  "populated_products [] = []"
| "populated_products ((q, None) # rest) = populated_products rest"
| "populated_products ((q, Some p) # rest) = (q, p) # populated_products rest"

definition getCheckout :: "arith \<Rightarrow> env \<Rightarrow> world \<Rightarrow> response \<times> world" where
  "getCheckout a e w =
     (if read_fails e then (Next (ServerFault StoreFailure), w)
      else
        let products = populate (catalog w) (cart_items (session_user w)) in
        case total_sum a products 0 of
          Inl err \<Rightarrow> (Next (ServerFault err), w)
        | Inr sum_total \<Rightarrow>
            (case stripe_line_items a products of
               Inl err \<Rightarrow> (Next (ServerFault err), w)
             | Inr items \<Rightarrow>
                 let w1 = w\<lparr>stripe_calls := stripe_calls w @ [items]\<rparr> in
                 if payment_fails e then (Next (ServerFault PaymentFailure), w1)
                 else (RenderCheckout
                         \<lparr>checkout_products = populated_products products, totalSum = sum_total,
                          sessionId = session_id e\<rparr>, w1)))"

section \<open>Invoice\<close>

definition Order_findById :: "order_doc list \<Rightarrow> oid \<Rightarrow> order_doc option" where
  "Order_findById os i = find (\<lambda>ord. order_id ord = i) os"

text \<open>
  The loop of \<^verbatim>\<open>getInvoice\<close>:
  \<^verbatim>\<open>totalPrice = totalPrice + product.productData.price * product.quantity\<close>, and one
  line of text per product.
\<close>

fun invoice_total :: "arith \<Rightarrow> order_line list \<Rightarrow> rat \<Rightarrow> rat" where
  "invoice_total a [] t = t"
| "invoice_total a (l # ls) t =
     invoice_total a ls
       (js_add a t (js_mul a (price (productData l)) (of_int (line_quantity l))))"

definition render_invoice :: "arith \<Rightarrow> order_doc \<Rightarrow> invoice" where
  "render_invoice a ord =
     \<lparr>heading = ''Invoice'',
      product_lines =
        map (\<lambda>l. (title (productData l), line_quantity l, price (productData l)))
          (order_products ord),
      total_price = invoice_total a (order_products ord) 0\<rparr>"

definition invoiceName :: "oid \<Rightarrow> string" where
  "invoiceName orderId = ''invoice-'' @ orderId @ ''.pdf''"

definition write_file :: "string \<Rightarrow> invoice \<Rightarrow> (string \<times> invoice) list \<Rightarrow> (string \<times> invoice) list" where
  "write_file name doc files = (name, doc) # filter (\<lambda>f. fst f \<noteq> name) files"

definition getInvoice :: "arith \<Rightarrow> env \<Rightarrow> world \<Rightarrow> oid \<Rightarrow> response \<times> world" where
  "getInvoice a e w orderId =
     (if read_fails e then (Next (Passed StoreFailure), w)
      else case Order_findById (ledger w) orderId of
        None \<Rightarrow> (Next (Message ''No order found''), w)
      | Some ord \<Rightarrow>
          if order_userId ord \<noteq> user_id (session_user w)
          then (Next (Message ''Unauthorized''), w)
          else
            let doc = render_invoice a ord in
            (Pdf (invoiceName orderId) doc,
             w\<lparr>invoice_files := write_file (invoiceName orderId) doc (invoice_files w)\<rparr>))"

section \<open>Repeated cart additions\<close>

text \<open>
  \<open>n\<close> requests to add the same product, one after the other, for each of the two
  controllers.
\<close>

fun repeat_postCart :: "nat \<Rightarrow> env \<Rightarrow> world \<Rightarrow> oid \<Rightarrow> world" where
  "repeat_postCart 0 e w prodId = w"
| "repeat_postCart (Suc n) e w prodId = repeat_postCart n e (snd (postCart e w prodId)) prodId"

fun repeat_postCart_sequelize :: "nat \<Rightarrow> env \<Rightarrow> sq_world \<Rightarrow> oid \<Rightarrow> sq_world" where
  "repeat_postCart_sequelize 0 e w prodId = w"
| "repeat_postCart_sequelize (Suc n) e w prodId =
     repeat_postCart_sequelize n e (snd (postCart_sequelize e w prodId)) prodId"

text \<open>The cart in which the quantity of the entry for \<open>pid\<close> is one higher.\<close>

definition increment :: "oid \<Rightarrow> cart_item list \<Rightarrow> cart_item list" where
  "increment pid items =
     map (\<lambda>i. if productId i = pid then i\<lparr>quantity := quantity i + 1\<rparr> else i) items"

section \<open>Example data\<close>

text \<open>
  The scenario of the specification: a book at 10 and a pen at 5; the cart of the
  logged-in user holds the book twice and the pen once.
\<close>

definition book :: product where
  "book = \<lparr>prod_id = ''p1'', title = ''Book'', price = 10, description = ''A book'',
           imageUrl = ''book.png'', userId = ''u9''\<rparr>"

definition pen :: product where
  "pen = \<lparr>prod_id = ''p2'', title = ''Pen'', price = 5, description = ''A pen'',
          imageUrl = ''pen.png'', userId = ''u9''\<rparr>"

definition alice :: user_doc where
  "alice = \<lparr>user_id = ''u1'', email = ''alice@example.com'',
            cart_items = [\<lparr>productId = ''p1'', quantity = 2\<rparr>,
                          \<lparr>productId = ''p2'', quantity = 1\<rparr>]\<rparr>"

definition shop :: world where
  "shop = \<lparr>session_user = alice, catalog = [book, pen], ledger = [], invoice_files = [],
           stripe_calls = []\<rparr>"

text \<open>
  Arithmetic without rounding. On the numbers of the examples below (small integers) it
  agrees with the arithmetic of the language.
\<close>

definition exact :: arith where
  "exact = \<lparr>js_add = (+), js_mul = (*)\<rparr>"

text \<open>Surroundings in which every storage and payment call succeeds.\<close>

definition calm :: env where
  "calm = \<lparr>read_fails = False, order_save_fails = False, cart_save_fails = False,
           product_save_fails = False, payment_fails = False, new_order_id = ''o1'',
           session_id = ''cs1''\<rparr>"

definition dearer_book :: product_form where
  "dearer_book = \<lparr>form_title = ''Book'', form_imageUrl = ''book.png'', form_price = 12,
                  form_description = ''A book'', form_productId = ''p1''\<rparr>"

definition empty_shop :: world where
  "empty_shop = shop\<lparr>session_user := alice\<lparr>cart_items := []\<rparr>\<rparr>"

definition empty_shop_sq :: sq_world where
  "empty_shop_sq = \<lparr>sq_products = [book, pen], sq_cart = Some []\<rparr>"

definition bobs_order :: order_doc where
  "bobs_order = \<lparr>order_id = ''o7'', order_email = ''bob@example.com'', order_userId = ''u2'',
                 order_products = [\<lparr>line_quantity = 1, productData = pen\<rparr>]\<rparr>"

definition shop_with_bobs_order :: world where
  "shop_with_bobs_order = shop\<lparr>ledger := [bobs_order]\<rparr>"

text \<open>
  The state after the checkout session was created, after the checkout was then
  completed, and after it was completed with a price edit in between.
\<close>

definition shop_asked :: world where
  "shop_asked = snd (getCheckout exact calm shop)"

definition shop_paid :: world where
  "shop_paid = snd (getCheckoutSuccess calm shop_asked)"

definition shop_repriced_paid :: world where
  "shop_repriced_paid =
     snd (getCheckoutSuccess calm (snd (postEditProduct calm shop_asked dearer_book)))"

text \<open>What the language reads the strings used in the examples as.\<close>

definition sample_toNumber :: "string \<Rightarrow> jsnum" where
  "sample_toNumber s =
     (if s = ''0'' then Num 0 else if s = ''1'' then Num 1 else if s = ''2'' then Num 2
      else NaN)"

section \<open>Lemmas on lookups and snapshots\<close>

lemma findById_prod_id: "Product_findById ps i = Some p \<Longrightarrow> prod_id p = i"
  by (auto simp add: Product_findById_def find_Some_iff)

lemma populate_Nil: "populate ps [] = []"
  by (simp add: populate_def)

lemma populate_Cons:
  "populate ps (i # items) = (quantity i, Product_findById ps (productId i)) # populate ps items"
  by (simp add: populate_def)

lemma order_lines_copy:
  "order_lines (populate ps items) = Inr ls \<Longrightarrow>
     list_all2 (\<lambda>l i. line_quantity l = quantity i
                   \<and> Product_findById ps (productId i) = Some (productData l)) ls items"
proof (induction items arbitrary: ls)
  case Nil
  then show ?case by (simp add: populate_Nil)
next
  case (Cons i items)
  then show ?case
    by (cases "Product_findById ps (productId i)")
       (auto simp add: populate_Cons split: sum.splits)
qed

lemma invoice_total_total_sum:
  "\<forall>x y. js_mul a x y = js_mul a y x \<Longrightarrow> total_sum a ps t = Inr s \<Longrightarrow>
     order_lines ps' = Inr ls \<Longrightarrow>
     map (\<lambda>qp. (fst qp, map_option price (snd qp))) ps' =
       map (\<lambda>qp. (fst qp, map_option price (snd qp))) ps \<Longrightarrow>
     invoice_total a ls t = s"
proof (induction a ps t arbitrary: ps' ls rule: total_sum.induct)
  case (1 a t)
  then show ?case by simp
next
  case (2 a q rest t)
  then show ?case by simp
next
  case (3 a q p rest t)
  from "3.prems"(4) obtain p' rest' where ps': "ps' = (q, Some p') # rest'"
    and p': "price p' = price p"
    and rest': "map (\<lambda>qp. (fst qp, map_option price (snd qp))) rest' =
                map (\<lambda>qp. (fst qp, map_option price (snd qp))) rest"
    by (cases ps') auto
  from "3.prems"(3) ps' obtain ls' where ls: "ls = \<lparr>line_quantity = q, productData = p'\<rparr> # ls'"
    and ls': "order_lines rest' = Inr ls'"
    by (auto split: sum.splits)
  have "invoice_total a ls' (js_add a t (js_mul a (of_int q) (price p))) = s"
    using "3.IH" "3.prems"(1,2) ls' rest' by simp
  moreover have "js_mul a (price p') (of_int q) = js_mul a (of_int q) (price p)"
    using "3.prems"(1) p' by simp
  ultimately show ?case using ls by simp
qed

lemma total_sum_line_items:
  "total_sum a ps t = Inr s \<Longrightarrow>
     \<exists>items. stripe_line_items a ps = Inr items
       \<and> list_all2 (\<lambda>it qp. li_quantity it = fst qp
             \<and> map_option (\<lambda>p. js_mul a (price p) 100) (snd qp) = Some (li_amount it))
           items ps"
proof (induction a ps t rule: total_sum.induct)
  case (3 a q p rest t)
  then show ?case by auto
qed simp_all

lemma order_lines_found:
  "\<forall>i \<in> set items. Product_findById ps (productId i) \<noteq> None \<Longrightarrow>
     \<exists>ls. order_lines (populate ps items) = Inr ls"
proof (induction items)
  case Nil
  then show ?case by (simp add: populate_Nil)
next
  case (Cons i items)
  then show ?case by (auto simp add: populate_Cons)
qed

lemma edits_ledger: "ledger (edits es w) = ledger w"
proof (induction es arbitrary: w)
  case Nil
  then show ?case by simp
next
  case (Cons a es)
  obtain e form where a: "a = (e, form)" by (cases a)
  have "ledger (snd (postEditProduct e w form)) = ledger w"
    by (simp add: postEditProduct_def Let_def split: option.splits)
  then show ?case using Cons.IH a by simp
qed

lemma getCheckoutSuccess_Redirect:
  assumes "getCheckoutSuccess e w = (Redirect ''/orders'', w1)"
  shows "\<exists>ls. order_lines (populate (catalog w) (cart_items (session_user w))) = Inr ls
           \<and> w1 = w\<lparr>ledger := ledger w @ [new_Order e (session_user w) ls],
                    session_user := clearCart (session_user w)\<rparr>"
  using assms
  by (auto simp add: getCheckoutSuccess_def Order_save_def Let_def split: if_splits sum.splits)

lemma getCheckout_Render:
  assumes "getCheckout a e w = (RenderCheckout v, w1)"
  shows "\<exists>items. total_sum a (populate (catalog w) (cart_items (session_user w))) 0 =
             Inr (totalSum v)
           \<and> stripe_line_items a (populate (catalog w) (cart_items (session_user w))) = Inr items
           \<and> w1 = w\<lparr>stripe_calls := stripe_calls w @ [items]\<rparr>"
  using assms
  by (auto simp add: getCheckout_def Let_def split: if_splits sum.splits)

lemma Order_findById_fresh:
  "i \<notin> order_id ` set os \<Longrightarrow> order_id ord = i \<Longrightarrow> Order_findById (os @ [ord]) i = Some ord"
  by (induction os) (auto simp add: Order_findById_def)

section \<open>Lemmas on the cart\<close>

lemma add_item_absent:
  "pid \<notin> productId ` set items \<Longrightarrow> add_item pid items = items @ [\<lparr>productId = pid, quantity = 1\<rparr>]"
  by (induction items) auto

lemma increment_absent:
  "pid \<notin> productId ` set items \<Longrightarrow> increment pid items = items"
  by (induction items) (auto simp add: increment_def)

lemma increment_Cons:
  "increment pid (i # items) =
     (if productId i = pid then i\<lparr>quantity := quantity i + 1\<rparr> else i) # increment pid items"
  by (simp add: increment_def)

lemma add_item_present:
  "distinct (map productId items) \<Longrightarrow> pid \<in> productId ` set items \<Longrightarrow>
     add_item pid items = increment pid items"
proof (induction items)
  case Nil
  then show ?case by simp
next
  case (Cons i items)
  show ?case
  proof (cases "productId i = pid")
    case True
    then have "pid \<notin> productId ` set items" using Cons.prems(1) by auto
    then show ?thesis using True by (simp add: increment_Cons increment_absent)
  next
    case False
    then have "pid \<in> productId ` set items" using Cons.prems(2) by auto
    then show ?thesis using False Cons.IH Cons.prems(1) by (simp add: increment_Cons)
  qed
qed

lemma postCart_step:
  assumes "Product_findById (catalog w) pid = Some p" "\<not> read_fails e" "\<not> cart_save_fails e"
  shows "postCart e w pid =
           (Redirect ''/cart'',
            w\<lparr>session_user := (session_user w)\<lparr>cart_items := add_item pid (cart_items (session_user w))\<rparr>\<rparr>)"
  using assms findById_prod_id[OF assms(1)] by (simp add: postCart_def addToCart_def)

lemma repeat_postCart_single:
  assumes "Product_findById (catalog w) pid = Some p" "\<not> read_fails e" "\<not> cart_save_fails e"
    and "cart_items (session_user w) = [\<lparr>productId = pid, quantity = k\<rparr>]"
  shows "cart_items (session_user (repeat_postCart n e w pid)) = [\<lparr>productId = pid, quantity = k + int n\<rparr>]"
  using assms
proof (induction n arbitrary: w k)
  case 0
  then show ?case by simp
next
  case (Suc n)
  let ?w1 = "snd (postCart e w pid)"
  have step: "?w1 = w\<lparr>session_user := (session_user w)\<lparr>cart_items := [\<lparr>productId = pid, quantity = k + 1\<rparr>]\<rparr>\<rparr>"
    using Suc.prems by (simp add: postCart_step)
  have "cart_items (session_user (repeat_postCart n e ?w1 pid)) = [\<lparr>productId = pid, quantity = (k + 1) + int n\<rparr>]"
    by (rule Suc.IH) (use Suc.prems step in simp_all)
  then show ?case by (simp add: add.commute add.left_commute)
qed

lemma cart_getProducts_Nil:
  "pid \<notin> productId ` set items \<Longrightarrow> cart_getProducts items pid = []"
  by (auto simp add: cart_getProducts_def filter_empty_conv)

lemma cart_getProducts_present:
  "distinct (map productId items) \<Longrightarrow> i \<in> set items \<Longrightarrow> cart_getProducts items (productId i) = [i]"
  by (induction items) (auto simp add: cart_getProducts_def filter_empty_conv rev_image_eqI)

lemma cart_addProduct_absent:
  "pid \<notin> productId ` set items \<Longrightarrow> cart_addProduct items pid q = items @ [\<lparr>productId = pid, quantity = q\<rparr>]"
  by (auto simp add: cart_addProduct_def list_ex_iff)

lemma sequelize_step:
  assumes "Product_findById (sq_products w) pid = Some p" "\<not> read_fails e" "\<not> cart_save_fails e"
    and "sq_cart w = Some c" "distinct (map productId c)"
  shows "postCart_sequelize e w pid =
           (Redirect ''/cart'',
            w\<lparr>sq_cart := Some (if pid \<in> productId ` set c then increment pid c
                               else c @ [\<lparr>productId = pid, quantity = 1\<rparr>])\<rparr>)"
proof (cases "pid \<in> productId ` set c")
  case False
  then show ?thesis
    using assms findById_prod_id[OF assms(1)]
    by (simp add: postCart_sequelize_def cart_getProducts_Nil cart_addProduct_absent)
next
  case True
  then obtain i where i: "i \<in> set c" "productId i = pid" by auto
  have "cart_getProducts c pid = [i]"
    using cart_getProducts_present[OF assms(5) i(1)] i(2) by simp
  moreover have "cart_addProduct c pid (quantity i + 1) = increment pid c"
    using i assms(5)
    by (auto simp add: cart_addProduct_def list_ex_iff increment_def distinct_map inj_on_def)
  ultimately show ?thesis
    using assms True i by (simp add: postCart_sequelize_def)
qed

lemma repeat_sequelize_single:
  assumes "Product_findById (sq_products w) pid = Some p" "\<not> read_fails e" "\<not> cart_save_fails e"
    and "sq_cart w = Some [\<lparr>productId = pid, quantity = k\<rparr>]"
  shows "sq_cart (repeat_postCart_sequelize n e w pid) = Some [\<lparr>productId = pid, quantity = k + int n\<rparr>]"
  using assms
proof (induction n arbitrary: w k)
  case 0
  then show ?case by simp
next
  case (Suc n)
  let ?w1 = "snd (postCart_sequelize e w pid)"
  have step: "?w1 = w\<lparr>sq_cart := Some [\<lparr>productId = pid, quantity = k + 1\<rparr>]\<rparr>"
    using Suc.prems by (simp add: sequelize_step increment_def)
  have "sq_cart (repeat_postCart_sequelize n e ?w1 pid) = Some [\<lparr>productId = pid, quantity = (k + 1) + int n\<rparr>]"
    by (rule Suc.IH) (use Suc.prems step in simp_all)
  then show ?case by (simp add: add.commute add.left_commute)
qed

section \<open>Invoice total and checkout total\<close>

text \<open>
  C1, as stated, fails: nothing ties an order to the checkout session it was paid
  with. The order is built from the cart and the catalog as they are when the checkout
  is completed. Here the session is created with a total of 25, the price of the book is
  then edited from 10 to 12, and the invoice of the order created by the completed
  checkout adds up to 29.
\<close>

theorem invoice_total_counterexample:
  "fst (getCheckout exact calm shop) =
     RenderCheckout \<lparr>checkout_products = [(2, book), (1, pen)], totalSum = 25, sessionId = ''cs1''\<rparr>
   \<and> fst (getCheckoutSuccess calm (snd (postEditProduct calm shop_asked dearer_book))) =
       Redirect ''/orders''
   \<and> fst (getInvoice exact calm shop_repriced_paid ''o1'') =
       Pdf ''invoice-o1.pdf''
         \<lparr>heading = ''Invoice'', product_lines = [(''Book'', 2, 12), (''Pen'', 1, 5)],
          total_price = 29\<rparr>"
  unfolding shop_repriced_paid_def shop_asked_def
  by (simp add: getCheckout_def getCheckoutSuccess_def getInvoice_def postEditProduct_def
        populate_def Product_findById_def Order_findById_def Order_save_def Product_save_def
        new_Order_def clearCart_def render_invoice_def invoiceName_def Let_def exact_def
        shop_def alice_def book_def pen_def calm_def dearer_book_def)

text \<open>
  C1 (amended): when, at the completion of the checkout, the entries of the cart have the
  quantities and resolve to the prices they had when the checkout session was created,
  the order that is created has an invoice total (the sum of price times quantity over
  its lines, as \<^verbatim>\<open>getInvoice\<close> computes it) equal to the \<^verbatim>\<open>totalSum\<close> that
  \<^verbatim>\<open>getCheckout\<close> computed from the cart, and with a fresh order identifier the invoice
  handler renders exactly that invoice for the purchaser. The two loops multiply their
  operands in opposite orders, so this rests on the product of the language being
  commutative, and on nothing else of its arithmetic. The payment service is not sent
  the total: it is sent one line item per cart entry, with the quantity of the entry and
  the price times 100 as unit amount.
\<close>

theorem invoice_total_matches_checkout:
  assumes "\<forall>x y. js_mul a x y = js_mul a y x"
    and "getCheckout a e w = (RenderCheckout v, w1)"
    and "priced_cart w' = priced_cart w"
    and "getCheckoutSuccess e' w' = (Redirect ''/orders'', w2)"
  shows "\<exists>ord items. ledger w2 = ledger w' @ [ord]
           \<and> total_price (render_invoice a ord) = totalSum v
           \<and> (\<not> read_fails e'' \<and> new_order_id e' \<notin> order_id ` set (ledger w') \<longrightarrow>
                fst (getInvoice a e'' w2 (new_order_id e')) =
                  Pdf (invoiceName (new_order_id e')) (render_invoice a ord))
           \<and> stripe_calls w1 = stripe_calls w @ [items]
           \<and> list_all2 (\<lambda>it qp. li_quantity it = fst qp
                 \<and> map_option (\<lambda>p. js_mul a (price p) 100) (snd qp) = Some (li_amount it))
               items (populate (catalog w) (cart_items (session_user w)))"
proof -
  let ?ps = "populate (catalog w) (cart_items (session_user w))"
  let ?ps' = "populate (catalog w') (cart_items (session_user w'))"
  obtain items where total: "total_sum a ?ps 0 = Inr (totalSum v)"
    and sent: "stripe_line_items a ?ps = Inr items"
    and w1: "w1 = w\<lparr>stripe_calls := stripe_calls w @ [items]\<rparr>"
    using getCheckout_Render[OF assms(2)] by blast
  obtain ls where ls: "order_lines ?ps' = Inr ls"
    and w2: "w2 = w'\<lparr>ledger := ledger w' @ [new_Order e' (session_user w') ls],
                     session_user := clearCart (session_user w')\<rparr>"
    using getCheckoutSuccess_Redirect[OF assms(4)] by auto
  let ?ord = "new_Order e' (session_user w') ls"
  have same: "map (\<lambda>qp. (fst qp, map_option price (snd qp))) ?ps' =
              map (\<lambda>qp. (fst qp, map_option price (snd qp))) ?ps"
    using assms(3) by (simp add: priced_cart_def)
  have "ledger w2 = ledger w' @ [?ord]"
    using w2 by simp
  moreover have "total_price (render_invoice a ?ord) = totalSum v"
    using invoice_total_total_sum[OF assms(1) total ls same]
    by (simp add: render_invoice_def new_Order_def)
  moreover have "\<not> read_fails e'' \<and> new_order_id e' \<notin> order_id ` set (ledger w') \<longrightarrow>
                fst (getInvoice a e'' w2 (new_order_id e')) =
                  Pdf (invoiceName (new_order_id e')) (render_invoice a ?ord)"
  proof
    assume f: "\<not> read_fails e'' \<and> new_order_id e' \<notin> order_id ` set (ledger w')"
    have "Order_findById (ledger w2) (new_order_id e') = Some ?ord"
      using f w2 by (simp add: Order_findById_fresh new_Order_def)
    moreover have "order_userId ?ord = user_id (session_user w2)"
      using w2 by (simp add: new_Order_def clearCart_def)
    ultimately show "fst (getInvoice a e'' w2 (new_order_id e')) =
                  Pdf (invoiceName (new_order_id e')) (render_invoice a ?ord)"
      using f by (simp add: getInvoice_def Let_def)
  qed
  moreover have "stripe_calls w1 = stripe_calls w @ [items]"
    using w1 by simp
  moreover have "list_all2 (\<lambda>it qp. li_quantity it = fst qp
                 \<and> map_option (\<lambda>p. js_mul a (price p) 100) (snd qp) = Some (li_amount it))
               items ?ps"
    using total_sum_line_items[OF total] sent by simp
  ultimately show ?thesis by blast
qed

theorem invoice_total_matches_checkout_witness:
  "(\<forall>x y. js_mul exact x y = js_mul exact y x)
   \<and> getCheckout exact calm shop =
     (RenderCheckout \<lparr>checkout_products = [(2, book), (1, pen)], totalSum = 25, sessionId = ''cs1''\<rparr>,
      shop_asked)
   \<and> priced_cart shop_asked = priced_cart shop
   \<and> getCheckoutSuccess calm shop_asked = (Redirect ''/orders'', shop_paid)
   \<and> (\<exists>ord items. ledger shop_paid = ledger shop_asked @ [ord]
         \<and> total_price (render_invoice exact ord) = 25
         \<and> fst (getInvoice exact calm shop_paid ''o1'') =
             Pdf (invoiceName ''o1'') (render_invoice exact ord)
         \<and> stripe_calls shop_asked = stripe_calls shop @ [items]
         \<and> map li_quantity items = [2, 1]
         \<and> map li_amount items = [1000, 500])"
proof -
  have h0: "\<forall>x y. js_mul exact x y = js_mul exact y x"
    by (simp add: exact_def mult.commute)
  have h1: "getCheckout exact calm shop =
     (RenderCheckout \<lparr>checkout_products = [(2, book), (1, pen)], totalSum = 25, sessionId = ''cs1''\<rparr>,
      shop_asked)"
    unfolding shop_asked_def
    by (simp add: getCheckout_def populate_def Product_findById_def Let_def exact_def
          shop_def alice_def book_def pen_def calm_def)
  have h3: "getCheckoutSuccess calm shop_asked = (Redirect ''/orders'', shop_paid)"
    unfolding shop_paid_def shop_asked_def
    by (simp add: getCheckoutSuccess_def getCheckout_def populate_def Product_findById_def
          Order_save_def new_Order_def clearCart_def Let_def exact_def
          shop_def alice_def book_def pen_def calm_def)
  have h2: "priced_cart shop_asked = priced_cart shop"
    and fresh: "new_order_id calm \<notin> order_id ` set (ledger shop_asked)"
    unfolding shop_asked_def
    by (simp_all add: priced_cart_def getCheckout_def populate_def Product_findById_def Let_def
          exact_def shop_def alice_def book_def pen_def calm_def)
  have calm: "\<not> read_fails calm" "new_order_id calm = ''o1''"
    by (simp_all add: calm_def)
  have ps: "populate (catalog shop) (cart_items (session_user shop)) = [(2, Some book), (1, Some pen)]"
    by (simp add: populate_def Product_findById_def shop_def alice_def book_def pen_def)
  have prices: "js_mul exact (price book) 100 = 1000" "js_mul exact (price pen) 100 = 500"
    by (simp_all add: exact_def book_def pen_def)
  obtain ord items where r: "ledger shop_paid = ledger shop_asked @ [ord]"
    "total_price (render_invoice exact ord) = totalSum
       \<lparr>checkout_products = [(2, book), (1, pen)], totalSum = 25, sessionId = ''cs1''\<rparr>"
    "\<not> read_fails calm \<and> new_order_id calm \<notin> order_id ` set (ledger shop_asked) \<longrightarrow>
       fst (getInvoice exact calm shop_paid (new_order_id calm)) =
         Pdf (invoiceName (new_order_id calm)) (render_invoice exact ord)"
    "stripe_calls shop_asked = stripe_calls shop @ [items]"
    "list_all2 (\<lambda>it qp. li_quantity it = fst qp
         \<and> map_option (\<lambda>p. js_mul exact (price p) 100) (snd qp) = Some (li_amount it))
       items (populate (catalog shop) (cart_items (session_user shop)))"
    using invoice_total_matches_checkout [OF h0 h1 h2 h3, of calm] by blast
  have sent: "map li_quantity items = [2, 1]" "map li_amount items = [1000, 500]"
    using r(5) by (auto simp add: ps prices list_all2_Cons2)
  have inv: "fst (getInvoice exact calm shop_paid ''o1'') =
             Pdf (invoiceName ''o1'') (render_invoice exact ord)"
    using r(3) fresh calm by simp
  have tot: "total_price (render_invoice exact ord) = 25"
    using r(2) by simp
  have ex: "\<exists>ord items. ledger shop_paid = ledger shop_asked @ [ord]
         \<and> total_price (render_invoice exact ord) = 25
         \<and> fst (getInvoice exact calm shop_paid ''o1'') =
             Pdf (invoiceName ''o1'') (render_invoice exact ord)
         \<and> stripe_calls shop_asked = stripe_calls shop @ [items]
         \<and> map li_quantity items = [2, 1]
         \<and> map li_amount items = [1000, 500]"
    using r(1,4) sent inv tot by (intro exI[of _ ord] exI[of _ items]) simp
  show ?thesis
    by (rule conjI[OF h0 conjI[OF h1 conjI[OF h2 conjI[OF h3 ex]]]])
qed

section \<open>Checkout with an empty cart\<close>

text \<open>
  C2, as stated, fails: no handler checks whether the cart is empty. Completing a
  checkout with an empty cart answers with the redirect to the orders page and saves an
  order without lines.
\<close>

theorem empty_cart_counterexample:
  "getCheckoutSuccess calm empty_shop =
     (Redirect ''/orders'',
      empty_shop\<lparr>ledger := [\<lparr>order_id = ''o1'', order_email = ''alice@example.com'',
                              order_userId = ''u1'', order_products = []\<rparr>]\<rparr>)"
  by (simp add: getCheckoutSuccess_def populate_def Order_save_def new_Order_def clearCart_def
        Let_def empty_shop_def shop_def alice_def calm_def)

text \<open>
  C2 (amended): for a user whose cart contains no items, creating the checkout session
  creates no order, sends the payment service an empty list of line items and, when the
  storage and the payment service answer, renders a total of 0; completing the checkout
  appends an order without lines to the ledger when the order can be saved, and answers
  with the redirect when the cart can be saved too. No emptiness error is raised.
\<close>

theorem empty_cart_checkout:
  assumes "cart_items (session_user w) = []"
  shows "ledger (snd (getCheckout a e w)) = ledger w
       \<and> fst (getCheckout a e w) =
           (if read_fails e then Next (ServerFault StoreFailure)
            else if payment_fails e then Next (ServerFault PaymentFailure)
            else RenderCheckout \<lparr>checkout_products = [], totalSum = 0, sessionId = session_id e\<rparr>)
       \<and> (\<not> read_fails e \<longrightarrow> stripe_calls (snd (getCheckout a e w)) = stripe_calls w @ [[]])
       \<and> (\<not> read_fails e \<and> \<not> order_save_fails e \<longrightarrow>
            ledger (snd (getCheckoutSuccess e w)) = ledger w @ [new_Order e (session_user w) []])
       \<and> (\<not> read_fails e \<and> \<not> order_save_fails e \<and> \<not> cart_save_fails e \<longrightarrow>
            fst (getCheckoutSuccess e w) = Redirect ''/orders'')"
  using assms
  by (simp add: getCheckout_def getCheckoutSuccess_def populate_Nil Order_save_def Let_def)

theorem empty_cart_checkout_witness:
  "cart_items (session_user empty_shop) = []
   \<and> ledger (snd (getCheckout exact calm empty_shop)) = ledger empty_shop
   \<and> fst (getCheckout exact calm empty_shop) =
       RenderCheckout \<lparr>checkout_products = [], totalSum = 0, sessionId = session_id calm\<rparr>
   \<and> stripe_calls (snd (getCheckout exact calm empty_shop)) = stripe_calls empty_shop @ [[]]
   \<and> ledger (snd (getCheckoutSuccess calm empty_shop)) =
       ledger empty_shop @ [new_Order calm (session_user empty_shop) []]
   \<and> fst (getCheckoutSuccess calm empty_shop) = Redirect ''/orders''"
proof -
  have h: "cart_items (session_user empty_shop) = []"
    by (simp add: empty_shop_def)
  have calm: "\<not> read_fails calm" "\<not> payment_fails calm" "\<not> order_save_fails calm"
    "\<not> cart_save_fails calm"
    by (simp_all add: calm_def)
  show ?thesis
    using h empty_cart_checkout [OF h, of exact calm] calm by simp
qed

section \<open>Order of the two writes of checkout completion\<close>

text \<open>
  C3: in \<^verbatim>\<open>getCheckoutSuccess\<close> the cart is cleared strictly after the order was
  saved. If saving the order fails, the user document (and with it the cart) and the
  ledger are unchanged and the request fails; after a successful request the cart is
  empty and the ledger has the new order; after a failed request the user document is
  unchanged; and whenever the user document changed, the order was appended.
\<close>

theorem clear_cart_after_order_save:
  "(order_save_fails e \<longrightarrow>
      session_user (snd (getCheckoutSuccess e w)) = session_user w
      \<and> ledger (snd (getCheckoutSuccess e w)) = ledger w
      \<and> fst (getCheckoutSuccess e w) \<noteq> Redirect ''/orders'')
   \<and> (fst (getCheckoutSuccess e w) = Redirect ''/orders'' \<longrightarrow>
        cart_items (session_user (snd (getCheckoutSuccess e w))) = []
        \<and> (\<exists>ord. ledger (snd (getCheckoutSuccess e w)) = ledger w @ [ord]))
   \<and> (fst (getCheckoutSuccess e w) \<noteq> Redirect ''/orders'' \<longrightarrow>
        session_user (snd (getCheckoutSuccess e w)) = session_user w)
   \<and> (session_user (snd (getCheckoutSuccess e w)) \<noteq> session_user w \<longrightarrow>
        (\<exists>ord. ledger (snd (getCheckoutSuccess e w)) = ledger w @ [ord]))"
  by (auto simp add: getCheckoutSuccess_def Order_save_def clearCart_def Let_def
        split: sum.splits)

theorem clear_cart_after_order_save_witness:
  "order_save_fails (calm\<lparr>order_save_fails := True\<rparr>)
   \<and> session_user (snd (getCheckoutSuccess (calm\<lparr>order_save_fails := True\<rparr>) shop)) =
       session_user shop
   \<and> ledger (snd (getCheckoutSuccess (calm\<lparr>order_save_fails := True\<rparr>) shop)) = ledger shop
   \<and> fst (getCheckoutSuccess (calm\<lparr>order_save_fails := True\<rparr>) shop) \<noteq> Redirect ''/orders''
   \<and> fst (getCheckoutSuccess calm shop) = Redirect ''/orders''
   \<and> cart_items (session_user (snd (getCheckoutSuccess calm shop))) = []
   \<and> session_user (snd (getCheckoutSuccess calm shop)) \<noteq> session_user shop
   \<and> (\<exists>ord. ledger (snd (getCheckoutSuccess calm shop)) = ledger shop @ [ord])"
proof -
  have h1: "order_save_fails (calm\<lparr>order_save_fails := True\<rparr>)" by simp
  have h2: "fst (getCheckoutSuccess calm shop) = Redirect ''/orders''"
    by (simp add: getCheckoutSuccess_def populate_def Product_findById_def Let_def
          shop_def alice_def book_def pen_def calm_def)
  have h3: "cart_items (session_user shop) \<noteq> []"
    by (simp add: shop_def alice_def)
  show ?thesis
    using h1 h2 h3 clear_cart_after_order_save [of "calm\<lparr>order_save_fails := True\<rparr>" shop]
      clear_cart_after_order_save [of calm shop]
    by auto
qed

section \<open>The two completion handlers\<close>

text \<open>
  C4: \<^verbatim>\<open>postOrder\<close> and \<^verbatim>\<open>getCheckoutSuccess\<close> have the same response and the same
  effect on every state and in all surroundings. When nothing fails and every product
  of the cart is in the catalog, both answer with the redirect to the orders page, the
  ledger has one more order, the cart is empty and nothing else has changed; the order
  has the new identifier, the purchaser's email and identifier, and line by line the
  quantity of the cart entry and the product document the catalog has for it.
\<close>

theorem postOrder_getCheckoutSuccess:
  "postOrder e w = getCheckoutSuccess e w
   \<and> (\<not> read_fails e \<and> \<not> order_save_fails e \<and> \<not> cart_save_fails e
        \<and> (\<forall>i \<in> set (cart_items (session_user w)).
              Product_findById (catalog w) (productId i) \<noteq> None) \<longrightarrow>
      (\<exists>ord. postOrder e w =
                (Redirect ''/orders'',
                 w\<lparr>ledger := ledger w @ [ord],
                   session_user := (session_user w)\<lparr>cart_items := []\<rparr>\<rparr>)
            \<and> getCheckoutSuccess e w =
                (Redirect ''/orders'',
                 w\<lparr>ledger := ledger w @ [ord],
                   session_user := (session_user w)\<lparr>cart_items := []\<rparr>\<rparr>)
            \<and> order_id ord = new_order_id e
            \<and> order_email ord = email (session_user w)
            \<and> order_userId ord = user_id (session_user w)
            \<and> list_all2 (\<lambda>l i. line_quantity l = quantity i
                    \<and> Product_findById (catalog w) (productId i) = Some (productData l))
                  (order_products ord) (cart_items (session_user w))))"
proof -
  have same: "postOrder e w = getCheckoutSuccess e w"
    by (simp add: postOrder_def getCheckoutSuccess_def)
  have "\<exists>ord. postOrder e w =
                (Redirect ''/orders'',
                 w\<lparr>ledger := ledger w @ [ord],
                   session_user := (session_user w)\<lparr>cart_items := []\<rparr>\<rparr>)
            \<and> order_id ord = new_order_id e
            \<and> order_email ord = email (session_user w)
            \<and> order_userId ord = user_id (session_user w)
            \<and> list_all2 (\<lambda>l i. line_quantity l = quantity i
                    \<and> Product_findById (catalog w) (productId i) = Some (productData l))
                  (order_products ord) (cart_items (session_user w))"
    if ok: "\<not> read_fails e" "\<not> order_save_fails e" "\<not> cart_save_fails e"
      and found: "\<forall>i \<in> set (cart_items (session_user w)).
              Product_findById (catalog w) (productId i) \<noteq> None"
  proof -
    obtain ls where ls: "order_lines (populate (catalog w) (cart_items (session_user w))) = Inr ls"
      using order_lines_found[OF found] by blast
    let ?ord = "new_Order e (session_user w) ls"
    have "postOrder e w =
            (Redirect ''/orders'',
             w\<lparr>ledger := ledger w @ [?ord],
               session_user := (session_user w)\<lparr>cart_items := []\<rparr>\<rparr>)"
      using ok ls by (simp add: postOrder_def Order_save_def clearCart_def Let_def)
    moreover have "order_id ?ord = new_order_id e" "order_email ?ord = email (session_user w)"
      "order_userId ?ord = user_id (session_user w)" "order_products ?ord = ls"
      by (simp_all add: new_Order_def)
    ultimately show ?thesis
      using order_lines_copy[OF ls] by auto
  qed
  then show ?thesis using same by auto
qed

theorem postOrder_getCheckoutSuccess_witness:
  "\<not> read_fails calm \<and> \<not> order_save_fails calm \<and> \<not> cart_save_fails calm
   \<and> Product_findById (catalog shop) ''p1'' = Some book
   \<and> Product_findById (catalog shop) ''p2'' = Some pen
   \<and> postOrder calm shop = getCheckoutSuccess calm shop
   \<and> (\<exists>ord. postOrder calm shop =
               (Redirect ''/orders'',
                shop\<lparr>ledger := ledger shop @ [ord],
                     session_user := (session_user shop)\<lparr>cart_items := []\<rparr>\<rparr>)
         \<and> order_id ord = ''o1''
         \<and> order_email ord = ''alice@example.com''
         \<and> order_userId ord = ''u1''
         \<and> order_products ord =
             [\<lparr>line_quantity = 2, productData = book\<rparr>, \<lparr>line_quantity = 1, productData = pen\<rparr>])"
proof -
  have calm: "\<not> read_fails calm" "\<not> order_save_fails calm" "\<not> cart_save_fails calm"
    "new_order_id calm = ''o1''"
    by (simp_all add: calm_def)
  have c: "cart_items (session_user shop) =
             [\<lparr>productId = ''p1'', quantity = 2\<rparr>, \<lparr>productId = ''p2'', quantity = 1\<rparr>]"
    "email (session_user shop) = ''alice@example.com''" "user_id (session_user shop) = ''u1''"
    by (simp_all add: shop_def alice_def)
  have f: "Product_findById (catalog shop) ''p1'' = Some book"
    "Product_findById (catalog shop) ''p2'' = Some pen"
    by (simp_all add: Product_findById_def shop_def book_def pen_def)
  have found: "\<forall>i \<in> set (cart_items (session_user shop)).
              Product_findById (catalog shop) (productId i) \<noteq> None"
    by (simp add: c f)
  obtain ord where r: "postOrder calm shop =
               (Redirect ''/orders'',
                shop\<lparr>ledger := ledger shop @ [ord],
                     session_user := (session_user shop)\<lparr>cart_items := []\<rparr>\<rparr>)"
    "order_id ord = new_order_id calm" "order_email ord = email (session_user shop)"
    "order_userId ord = user_id (session_user shop)"
    "list_all2 (\<lambda>l i. line_quantity l = quantity i
         \<and> Product_findById (catalog shop) (productId i) = Some (productData l))
       (order_products ord) (cart_items (session_user shop))"
    using postOrder_getCheckoutSuccess [of calm shop] calm(1-3) found by blast
  have "order_products ord =
          [\<lparr>line_quantity = 2, productData = book\<rparr>, \<lparr>line_quantity = 1, productData = pen\<rparr>]"
    using r(5) by (auto simp add: c f list_all2_Cons2)
  then have ex: "\<exists>ord. postOrder calm shop =
               (Redirect ''/orders'',
                shop\<lparr>ledger := ledger shop @ [ord],
                     session_user := (session_user shop)\<lparr>cart_items := []\<rparr>\<rparr>)
         \<and> order_id ord = ''o1''
         \<and> order_email ord = ''alice@example.com''
         \<and> order_userId ord = ''u1''
         \<and> order_products ord =
             [\<lparr>line_quantity = 2, productData = book\<rparr>, \<lparr>line_quantity = 1, productData = pen\<rparr>]"
    using r(1-4) calm(4) c(2,3) by (intro exI[of _ ord]) simp
  have same: "postOrder calm shop = getCheckoutSuccess calm shop"
    using postOrder_getCheckoutSuccess [of calm shop] by blast
  show ?thesis
    by (rule conjI[OF calm(1) conjI[OF calm(2) conjI[OF calm(3) conjI[OF f(1) conjI[OF f(2)
          conjI[OF same ex]]]]]])
qed

section \<open>Adding a product to the cart\<close>

text \<open>
  C5: for a product of the catalog and requests that the storage serves, \<open>n\<close> additions
  of the product to an empty cart leave one entry for it, with quantity \<open>n\<close>, under both
  controllers; and one addition to a cart whose product references are distinct
  increases the quantity of the product's entry by one when there is one, and appends an
  entry with quantity 1 otherwise.
\<close>

theorem add_product_counts:
  assumes "Product_findById (catalog w) pid = Some p"
    and "Product_findById (sq_products sw) pid = Some p'"
    and "\<not> read_fails e" and "\<not> cart_save_fails e"
  shows "(cart_items (session_user w) = [] \<longrightarrow>
           cart_items (session_user (repeat_postCart n e w pid)) =
             (if n = 0 then [] else [\<lparr>productId = pid, quantity = int n\<rparr>]))
       \<and> (sq_cart sw = Some [] \<longrightarrow>
           sq_cart (repeat_postCart_sequelize n e sw pid) =
             Some (if n = 0 then [] else [\<lparr>productId = pid, quantity = int n\<rparr>]))
       \<and> (distinct (map productId (cart_items (session_user w))) \<longrightarrow>
           cart_items (session_user (snd (postCart e w pid))) =
             (if pid \<in> productId ` set (cart_items (session_user w))
              then increment pid (cart_items (session_user w))
              else cart_items (session_user w) @ [\<lparr>productId = pid, quantity = 1\<rparr>]))
       \<and> (sq_cart sw = Some c \<and> distinct (map productId c) \<longrightarrow>
           sq_cart (snd (postCart_sequelize e sw pid)) =
             Some (if pid \<in> productId ` set c then increment pid c
                   else c @ [\<lparr>productId = pid, quantity = 1\<rparr>]))"
proof -
  have calls: "cart_items (session_user w) = [] \<longrightarrow>
           cart_items (session_user (repeat_postCart n e w pid)) =
             (if n = 0 then [] else [\<lparr>productId = pid, quantity = int n\<rparr>])"
  proof (cases n)
    case 0
    then show ?thesis by simp
  next
    case (Suc m)
    show ?thesis
    proof
      assume empty: "cart_items (session_user w) = []"
      let ?w1 = "snd (postCart e w pid)"
      have w1: "?w1 = w\<lparr>session_user := (session_user w)\<lparr>cart_items := [\<lparr>productId = pid, quantity = 1\<rparr>]\<rparr>\<rparr>"
        using assms empty by (simp add: postCart_step)
      have "cart_items (session_user (repeat_postCart m e ?w1 pid)) =
              [\<lparr>productId = pid, quantity = 1 + int m\<rparr>]"
        by (rule repeat_postCart_single[where p = p]) (use assms w1 in simp_all)
      then show "cart_items (session_user (repeat_postCart n e w pid)) =
             (if n = 0 then [] else [\<lparr>productId = pid, quantity = int n\<rparr>])"
        using Suc by simp
    qed
  qed
  have sq_calls: "sq_cart sw = Some [] \<longrightarrow>
           sq_cart (repeat_postCart_sequelize n e sw pid) =
             Some (if n = 0 then [] else [\<lparr>productId = pid, quantity = int n\<rparr>])"
  proof (cases n)
    case 0
    then show ?thesis by simp
  next
    case (Suc m)
    show ?thesis
    proof
      assume empty: "sq_cart sw = Some []"
      let ?w1 = "snd (postCart_sequelize e sw pid)"
      have w1: "?w1 = sw\<lparr>sq_cart := Some [\<lparr>productId = pid, quantity = 1\<rparr>]\<rparr>"
        using assms empty by (simp add: sequelize_step)
      have "sq_cart (repeat_postCart_sequelize m e ?w1 pid) =
              Some [\<lparr>productId = pid, quantity = 1 + int m\<rparr>]"
        by (rule repeat_sequelize_single[where p = p']) (use assms w1 in simp_all)
      then show "sq_cart (repeat_postCart_sequelize n e sw pid) =
             Some (if n = 0 then [] else [\<lparr>productId = pid, quantity = int n\<rparr>])"
        using Suc by simp
    qed
  qed
  have step: "distinct (map productId (cart_items (session_user w))) \<longrightarrow>
           cart_items (session_user (snd (postCart e w pid))) =
             (if pid \<in> productId ` set (cart_items (session_user w))
              then increment pid (cart_items (session_user w))
              else cart_items (session_user w) @ [\<lparr>productId = pid, quantity = 1\<rparr>])"
    using assms by (simp add: postCart_step add_item_absent add_item_present)
  have sq_step: "sq_cart sw = Some c \<and> distinct (map productId c) \<longrightarrow>
           sq_cart (snd (postCart_sequelize e sw pid)) =
             Some (if pid \<in> productId ` set c then increment pid c
                   else c @ [\<lparr>productId = pid, quantity = 1\<rparr>])"
    using assms by (simp add: sequelize_step)
  show ?thesis
    using calls sq_calls step sq_step by blast
qed

theorem add_product_counts_witness:
  "Product_findById (catalog empty_shop) ''p1'' = Some book
   \<and> Product_findById (sq_products empty_shop_sq) ''p1'' = Some book
   \<and> \<not> read_fails calm \<and> \<not> cart_save_fails calm
   \<and> cart_items (session_user empty_shop) = []
   \<and> sq_cart empty_shop_sq = Some []
   \<and> cart_items (session_user (repeat_postCart 3 calm empty_shop ''p1'')) =
        [\<lparr>productId = ''p1'', quantity = 3\<rparr>]
   \<and> sq_cart (repeat_postCart_sequelize 3 calm empty_shop_sq ''p1'') =
        Some [\<lparr>productId = ''p1'', quantity = 3\<rparr>]
   \<and> cart_items (session_user (snd (postCart calm empty_shop ''p1''))) =
        [\<lparr>productId = ''p1'', quantity = 1\<rparr>]
   \<and> sq_cart (snd (postCart_sequelize calm empty_shop_sq ''p1'')) =
        Some [\<lparr>productId = ''p1'', quantity = 1\<rparr>]"
proof -
  have h1: "Product_findById (catalog empty_shop) ''p1'' = Some book"
    by (simp add: Product_findById_def empty_shop_def shop_def book_def pen_def)
  have h2: "Product_findById (sq_products empty_shop_sq) ''p1'' = Some book"
    by (simp add: Product_findById_def empty_shop_sq_def book_def pen_def)
  have h3: "\<not> read_fails calm" by (simp add: calm_def)
  have h4: "\<not> cart_save_fails calm" by (simp add: calm_def)
  have c1: "cart_items (session_user empty_shop) = []"
    by (simp add: empty_shop_def)
  have c2: "sq_cart empty_shop_sq = Some []"
    by (simp add: empty_shop_sq_def)
  show ?thesis
    using h1 h2 h3 h4 c1 c2
      add_product_counts [OF h1 h2 h3 h4, where n = 3 and c = "[]"]
    by simp
qed

section \<open>Invoice of another user's order\<close>

text \<open>
  C6: when the order exists and belongs to another user than the one logged in,
  \<^verbatim>\<open>getInvoice\<close> leaves the state, and so the invoice files, unchanged, sends no
  document, and (the lookup of the order having succeeded) passes the error
  \<^verbatim>\<open>Unauthorized\<close> on.
\<close>

theorem invoice_unauthorized:
  assumes "Order_findById (ledger w) orderId = Some ord"
    and "order_userId ord \<noteq> user_id (session_user w)"
  shows "snd (getInvoice a e w orderId) = w
       \<and> (\<forall>name doc. fst (getInvoice a e w orderId) \<noteq> Pdf name doc)
       \<and> (\<not> read_fails e \<longrightarrow> fst (getInvoice a e w orderId) = Next (Message ''Unauthorized''))"
  using assms by (simp add: getInvoice_def)

theorem invoice_unauthorized_witness:
  "Order_findById (ledger shop_with_bobs_order) ''o7'' = Some bobs_order
   \<and> order_userId bobs_order \<noteq> user_id (session_user shop_with_bobs_order)
   \<and> getInvoice exact calm shop_with_bobs_order ''o7'' =
       (Next (Message ''Unauthorized''), shop_with_bobs_order)
   \<and> invoice_files (snd (getInvoice exact calm shop_with_bobs_order ''o7'')) = []"
proof -
  have h1: "Order_findById (ledger shop_with_bobs_order) ''o7'' = Some bobs_order"
    by (simp add: Order_findById_def shop_with_bobs_order_def bobs_order_def)
  have h2: "order_userId bobs_order \<noteq> user_id (session_user shop_with_bobs_order)"
    by (simp add: shop_with_bobs_order_def bobs_order_def shop_def alice_def)
  have calm: "\<not> read_fails calm" by (simp add: calm_def)
  have files: "invoice_files shop_with_bobs_order = []"
    by (simp add: shop_with_bobs_order_def shop_def)
  have "getInvoice exact calm shop_with_bobs_order ''o7'' =
          (Next (Message ''Unauthorized''), shop_with_bobs_order)"
    using invoice_unauthorized [OF h1 h2, of exact calm] calm by (simp add: prod_eq_iff)
  then show ?thesis
    using h1 h2 files by simp
qed

section \<open>Order lines are copies\<close>

text \<open>
  C7: the order created by a completed checkout holds, line by line, the quantity of
  the cart entry and the whole product document (title, description, price, image
  reference) the catalog had for it at that moment; and no run of product edits changes
  the ledger.
\<close>

theorem order_snapshot_frozen:
  assumes "getCheckoutSuccess e w = (Redirect ''/orders'', w1)"
  shows "\<exists>ord. ledger w1 = ledger w @ [ord]
           \<and> list_all2 (\<lambda>l i. line_quantity l = quantity i
                   \<and> Product_findById (catalog w) (productId i) = Some (productData l))
                 (order_products ord) (cart_items (session_user w))
           \<and> (\<forall>es. ledger (edits es w1) = ledger w1)"
proof -
  obtain ls where ls: "order_lines (populate (catalog w) (cart_items (session_user w))) = Inr ls"
    and w1: "w1 = w\<lparr>ledger := ledger w @ [new_Order e (session_user w) ls],
                    session_user := clearCart (session_user w)\<rparr>"
    using getCheckoutSuccess_Redirect[OF assms] by blast
  have "ledger w1 = ledger w @ [new_Order e (session_user w) ls]"
    using w1 by simp
  moreover have "order_products (new_Order e (session_user w) ls) = ls"
    by (simp add: new_Order_def)
  ultimately show ?thesis
    using order_lines_copy[OF ls] edits_ledger by auto
qed

theorem order_snapshot_frozen_witness:
  "getCheckoutSuccess calm shop_asked = (Redirect ''/orders'', shop_paid)
   \<and> (\<exists>ord. ledger shop_paid = ledger shop_asked @ [ord]
         \<and> order_products ord =
             [\<lparr>line_quantity = 2, productData = book\<rparr>, \<lparr>line_quantity = 1, productData = pen\<rparr>]
         \<and> ledger (edits [(calm, dearer_book)] shop_paid) = ledger shop_paid)
   \<and> map price (catalog shop_paid) = [10, 5]
   \<and> map price (catalog (edits [(calm, dearer_book)] shop_paid)) = [12, 5]"
proof -
  have prices: "map price (catalog shop_paid) = [10, 5]"
    "map price (catalog (edits [(calm, dearer_book)] shop_paid)) = [12, 5]"
    unfolding shop_paid_def shop_asked_def
    by (simp_all add: getCheckoutSuccess_def getCheckout_def postEditProduct_def populate_def
          Product_findById_def Product_save_def Order_save_def new_Order_def clearCart_def
          Let_def shop_def alice_def book_def pen_def calm_def exact_def dearer_book_def)
  have h: "getCheckoutSuccess calm shop_asked = (Redirect ''/orders'', shop_paid)"
    unfolding shop_paid_def shop_asked_def
    by (simp add: getCheckoutSuccess_def getCheckout_def populate_def Product_findById_def
          Order_save_def new_Order_def clearCart_def Let_def
          shop_def alice_def book_def pen_def calm_def exact_def)
  have c: "cart_items (session_user shop_asked) =
             [\<lparr>productId = ''p1'', quantity = 2\<rparr>, \<lparr>productId = ''p2'', quantity = 1\<rparr>]"
    "Product_findById (catalog shop_asked) ''p1'' = Some book"
    "Product_findById (catalog shop_asked) ''p2'' = Some pen"
    unfolding shop_asked_def
    by (simp_all add: getCheckout_def populate_def Product_findById_def Let_def
          shop_def alice_def book_def pen_def calm_def exact_def)
  obtain ord where ord: "ledger shop_paid = ledger shop_asked @ [ord]"
    "list_all2 (\<lambda>l i. line_quantity l = quantity i
         \<and> Product_findById (catalog shop_asked) (productId i) = Some (productData l))
       (order_products ord) (cart_items (session_user shop_asked))"
    "\<forall>es. ledger (edits es shop_paid) = ledger shop_paid"
    using order_snapshot_frozen [OF h] by blast
  have "order_products ord =
          [\<lparr>line_quantity = 2, productData = book\<rparr>, \<lparr>line_quantity = 1, productData = pen\<rparr>]"
    using ord(2) by (auto simp add: c list_all2_Cons2)
  then show ?thesis using h ord(1,3) prices by blast
qed

section \<open>Pages of the product listing\<close>

text \<open>
  C8: for a page number \<open>p \<ge> 1\<close> and a storage that answers, \<^verbatim>\<open>getProducts\<close> renders
  the products after the first \<open>(p - 1) * 3\<close>, at most 3 of them, reports a next page
  exactly when \<open>3 * p\<close> is below the number of products, and reports as last page the
  number of products divided by 3, rounded up; the page size is 3.
\<close>

theorem listing_page:
  assumes "1 \<le> p" and "toNumber s = Num p" and "\<not> read_fails e"
  shows "\<exists>v. getProducts toNumber e w (Text s) = (RenderList ''shop/product-list'' v, w)
           \<and> currentPage v = p
           \<and> prods v = take 3 (drop (nat ((p - 1) * 3)) (catalog w))
           \<and> length (prods v) \<le> 3
           \<and> hasNextPage v = (3 * p < int (length (catalog w)))
           \<and> lastPage v = \<lceil>(of_nat (length (catalog w)) :: rat) / 3\<rceil>
           \<and> ITEMS_PER_PAGE = 3"
  using assms
  by (simp add: getProducts_def find_skip_limit_def paged_view_def ITEMS_PER_PAGE_def)

theorem listing_page_witness:
  "(1::int) \<le> 1 \<and> sample_toNumber ''1'' = Num 1 \<and> \<not> read_fails calm
   \<and> (\<exists>v. getProducts sample_toNumber calm shop (Text ''1'') =
              (RenderList ''shop/product-list'' v, shop)
         \<and> currentPage v = 1
         \<and> prods v = [book, pen]
         \<and> hasNextPage v = False
         \<and> lastPage v = 1)"
proof -
  have h1: "(1::int) \<le> 1" by simp
  have h2: "sample_toNumber ''1'' = Num 1" by (simp add: sample_toNumber_def)
  have h3: "\<not> read_fails calm" by (simp add: calm_def)
  have c: "catalog shop = [book, pen]" by (simp add: shop_def)
  have r: "\<lceil>(2::rat) / 3\<rceil> = 1" by (simp add: ceiling_unique)
  show ?thesis
    using h1 h2 h3
      listing_page [where p = 1 and toNumber = sample_toNumber and s = "''1''" and e = calm
        and w = shop]
    by (auto simp add: c r)
qed

section \<open>A product that does not exist\<close>

text \<open>
  C9: \<^verbatim>\<open>getProduct\<close> has no branch for an identifier that resolves to nothing. Reading
  the title of \<^verbatim>\<open>null\<close> throws, and the handler wraps the \<^verbatim>\<open>TypeError\<close> into the
  same error with status 500 that it makes of a storage failure.
\<close>

theorem getProduct_missing:
  "getProduct calm shop ''p404'' = (Next (ServerFault TypeError), shop)
   \<and> getProduct (calm\<lparr>read_fails := True\<rparr>) shop ''p404'' = (Next (ServerFault StoreFailure), shop)
   \<and> httpStatusCode (ServerFault TypeError) = httpStatusCode (ServerFault StoreFailure)"
  by (simp add: getProduct_def Product_findById_def calm_def shop_def book_def pen_def)

section \<open>The default page\<close>

text \<open>
  C10: when the \<^verbatim>\<open>page\<close> parameter is absent, or is a string that the language reads
  as \<^verbatim>\<open>NaN\<close> or as 0, \<^verbatim>\<open>getProducts\<close> and \<^verbatim>\<open>getIndex\<close> answer as they do for a
  parameter that reads as 1: with the first three products as page 1 when the storage
  answers.
\<close>

theorem default_page:
  assumes "q = Absent \<or> (\<exists>s. q = Text s \<and> (toNumber s = NaN \<or> toNumber s = Num 0))"
    and "toNumber one = Num 1"
  shows "getProducts toNumber e w q = getProducts toNumber e w (Text one)
       \<and> getIndex toNumber e w q = getIndex toNumber e w (Text one)
       \<and> (\<not> read_fails e \<longrightarrow>
            fst (getProducts toNumber e w q) =
              RenderList ''shop/product-list''
                (paged_view ''All Products'' ''/products'' (take 3 (catalog w)) 1
                   (int (length (catalog w))))
          \<and> fst (getIndex toNumber e w q) =
              RenderList ''shop/index''
                (paged_view ''Shop'' ''/'' (take 3 (catalog w)) 1 (int (length (catalog w)))))"
  using assms
  by (auto simp add: getProducts_def getIndex_def find_skip_limit_def ITEMS_PER_PAGE_def)

theorem default_page_witness:
  "sample_toNumber ''abc'' = NaN \<and> sample_toNumber ''0'' = Num 0 \<and> sample_toNumber ''1'' = Num 1
   \<and> getProducts sample_toNumber calm shop Absent = getProducts sample_toNumber calm shop (Text ''1'')
   \<and> getProducts sample_toNumber calm shop (Text ''abc'') = getProducts sample_toNumber calm shop (Text ''1'')
   \<and> getIndex sample_toNumber calm shop (Text ''0'') = getIndex sample_toNumber calm shop (Text ''1'')
   \<and> fst (getProducts sample_toNumber calm shop (Text ''0'')) =
        RenderList ''shop/product-list''
          (paged_view ''All Products'' ''/products'' (take 3 (catalog shop)) 1
             (int (length (catalog shop))))"
proof -
  have nan: "sample_toNumber ''abc'' = NaN" by (simp add: sample_toNumber_def)
  have zero: "sample_toNumber ''0'' = Num 0" by (simp add: sample_toNumber_def)
  have one: "sample_toNumber ''1'' = Num 1" by (simp add: sample_toNumber_def)
  have calm: "\<not> read_fails calm" by (simp add: calm_def)
  note page = default_page [where toNumber = sample_toNumber and one = "''1''" and e = calm
      and w = shop, OF _ one]
  have a: "getProducts sample_toNumber calm shop Absent =
             getProducts sample_toNumber calm shop (Text ''1'')"
    using page [of Absent] by blast
  have b: "getProducts sample_toNumber calm shop (Text ''abc'') =
             getProducts sample_toNumber calm shop (Text ''1'')"
    using page [of "Text ''abc''"] nan by blast
  have z: "getIndex sample_toNumber calm shop (Text ''0'') =
             getIndex sample_toNumber calm shop (Text ''1'')"
    using page [of "Text ''0''"] zero by blast
  have r: "fst (getProducts sample_toNumber calm shop (Text ''0'')) =
        RenderList ''shop/product-list''
          (paged_view ''All Products'' ''/products'' (take 3 (catalog shop)) 1
             (int (length (catalog shop))))"
    using page [of "Text ''0''"] zero calm by blast
  show ?thesis
    using nan zero one a b z r by blast
qed

end
